theory Spec2Isabelle
  imports Complex_Main "HOL-Library.Product_Lexorder"
begin

section \<open>The build commands of setup.py\<close>

subsection \<open>The environment the commands read\<close>

text \<open>
  \<^verbatim>\<open>finalize_options\<close> calls two functions of the standard library:
  \<^verbatim>\<open>distutils.spawn.find_executable\<close> and \<^verbatim>\<open>platform.system\<close>. Neither is code of
  setup.py, so both are parameters of the model: \<open>path_lookup\<close> gives, for every
  executable name, what \<^verbatim>\<open>find_executable\<close> returns for it (\<open>None\<close> is Python's
  \<^verbatim>\<open>None\<close>, \<open>Some p\<close> the path found), and \<open>system_name\<close> is the string
  \<^verbatim>\<open>platform.system()\<close> returns. \<open>lookups\<close> records the names \<^verbatim>\<open>find_executable\<close>
  has been called with, oldest first, so that the order of the calls can be stated.
\<close>

record sys_env =
  path_lookup :: "string \<Rightarrow> string option"
  system_name :: string
  lookups :: "string list"

definition find_executable :: "string \<Rightarrow> sys_env \<Rightarrow> string option \<times> sys_env" where
  "find_executable name s = (path_lookup s name, s\<lparr>lookups := lookups s @ [name]\<rparr>)"

definition platform_system :: "sys_env \<Rightarrow> string" where
  "platform_system s = system_name s"

text \<open>
  Python's truth value of an object that is \<^verbatim>\<open>None\<close> or a \<^verbatim>\<open>str\<close>:
  \<^verbatim>\<open>not x\<close> holds for \<^verbatim>\<open>None\<close> and for the empty string.
\<close>

fun py_not :: "string option \<Rightarrow> bool" where
  "py_not None = True"
| "py_not (Some p) = (p = [])"

subsection \<open>The class \<^verbatim>\<open>_BazelBuildCommand\<close>\<close>

text \<open>
  An attribute of a Python object is unset until it is first assigned;
  \<^verbatim>\<open>initialize_options\<close> assigns nothing.
\<close>

datatype 'a attribute = Unset | Assigned 'a

record bazel_build_command =
  bazel_cmd :: "string option attribute"
  additional_build_options :: "string list attribute"

datatype error = RuntimeError string

definition initialize_options :: "bazel_build_command \<Rightarrow> bazel_build_command" where
  "initialize_options self = self"

definition not_found_message :: string where
  "not_found_message =
     ''Could not find \"bazel\" or \"bazelisk\" binary. Please visit '' @
     ''https://docs.bazel.build/versions/master/install.html for '' @
     ''installation instruction.''"

text \<open>
  \<^verbatim>\<open>finalize_options\<close>, statement by statement. The result is the outcome (the
  exception raised, or \<open>()\<close> for a normal return) with the object and the environment as
  the call leaves them: the assignments made before the \<^verbatim>\<open>raise\<close> stay.
\<close>

definition finalize_options ::
  "bazel_build_command \<Rightarrow> sys_env \<Rightarrow> (error + unit) \<times> bazel_build_command \<times> sys_env" where
  "finalize_options self s =
     (let (c1, s1) = find_executable ''bazel'' s;
          self1 = self\<lparr>bazel_cmd := Assigned c1\<rparr>;
          (c2, self2, s2) =
            (if py_not c1
             then (let (c, s') = find_executable ''bazelisk'' s1
                   in (c, self1\<lparr>bazel_cmd := Assigned c\<rparr>, s'))
             else (c1, self1, s1))
      in if py_not c2
         then (Inl (RuntimeError not_found_message), self2, s2)
         else
           (let self3 = self2\<lparr>additional_build_options := Assigned []\<rparr>;
                self4 =
                  (if platform_system s2 = ''Darwin''
                   then self3\<lparr>additional_build_options := Assigned [''--macos_minimum_os=10.9'']\<rparr>
                   else self3)
            in (Inr (), self4, s2)))"

subsection \<open>The class \<^verbatim>\<open>_BuildCommand\<close>\<close>

text \<open>
  An entry of \<^verbatim>\<open>sub_commands\<close> is a pair of a command name and a predicate method,
  which distutils allows to be \<^verbatim>\<open>None\<close>. The predicate is called on the build command
  object, of type \<open>'b\<close> here: setup.py never looks inside it.
\<close>

type_synonym 'b sub_command = "string \<times> ('b \<Rightarrow> bool) option"

definition build_cc_extensions :: "'b \<Rightarrow> bool" where
  "build_cc_extensions self = True"

text \<open>
  The class attribute \<^verbatim>\<open>sub_commands\<close>; its argument is \<^verbatim>\<open>build.build.sub_commands\<close>,
  the list of the distutils class that setup.py extends.
\<close>

definition sub_commands :: "'b sub_command list \<Rightarrow> 'b sub_command list" where
  "sub_commands build_sub_commands =
     [(''bazel_build'', Some build_cc_extensions)] @ build_sub_commands"

text \<open>
  How the inherited \<^verbatim>\<open>build.run\<close> uses the list, as the comment above
  \<^verbatim>\<open>sub_commands\<close> in setup.py describes it: each sub-command is executed
  sequentially, if its predicate method evaluates to true (distutils also runs an entry
  whose predicate is \<^verbatim>\<open>None\<close>). \<open>get_sub_commands\<close> is the sequence of command names
  run, in order.
\<close>

fun applies :: "'b \<Rightarrow> 'b sub_command \<Rightarrow> bool" where
  "applies self (name, None) = True"
| "applies self (name, Some method) = method self"

definition get_sub_commands :: "'b \<Rightarrow> 'b sub_command list \<Rightarrow> string list" where
  "get_sub_commands self cmds = map fst (filter (applies self) cmds)"

section \<open>The schema registry and the merger, as the specification describes them\<close>

text \<open>
  setup.py packages the toolkit; the registry and the merger are not among the sources.
  The definitions of this section are written from the specification's sections 3, 4.1
  and 4.3, sentence by sentence.
\<close>

subsection \<open>Schema registry\<close>

text \<open>
  A version is a semantic version \<open>(major, minor, patch)\<close>; the order on triples is the
  lexicographic one, which is semantic-version precedence for versions without a
  pre-release tag.
\<close>

type_synonym version = "nat \<times> nat \<times> nat"

datatype version_or_latest = Latest | Exact version

datatype registry_error = SchemaNotFoundError

text \<open>
  Modelled from the spec: the Schema Registry and its \<^verbatim>\<open>resolve\<close> are missing from the
  sources. A registry is the list of the schemas loaded, each under its version; the
  schema itself stays abstract (\<open>'schema\<close>). From section 4.1: \<^verbatim>\<open>resolve\<close> fails with
  \<^verbatim>\<open>SchemaNotFoundError\<close> if the version is unknown; versions are ordered by
  semantic-version comparison, and "latest" resolves to the maximum known version at call
  time.
\<close>

type_synonym 'schema registry = "(version \<times> 'schema) list"

fun max_version :: "version list \<Rightarrow> version option" where
  "max_version [] = None"
| "max_version (v # vs) =
     (case max_version vs of None \<Rightarrow> Some v | Some w \<Rightarrow> Some (max v w))"

definition known_versions :: "'schema registry \<Rightarrow> version list" where
  "known_versions reg = map fst reg"

definition lookup_version :: "'schema registry \<Rightarrow> version \<Rightarrow> registry_error + 'schema" where
  "lookup_version reg v =
     (case map_of reg v of None \<Rightarrow> Inl SchemaNotFoundError | Some sch \<Rightarrow> Inr sch)"

fun resolve :: "'schema registry \<Rightarrow> version_or_latest \<Rightarrow> registry_error + 'schema" where
  "resolve reg (Exact v) = lookup_version reg v"
| "resolve reg Latest =
     (case max_version (known_versions reg) of
        None \<Rightarrow> Inl SchemaNotFoundError
      | Some v \<Rightarrow> lookup_version reg v)"

subsection \<open>Model card\<close>

text \<open>
  Modelled from the spec: the model card data model is missing from the sources. The
  records follow section 3, attribute by attribute. A single-valued attribute is a
  scalar, \<open>None\<close> when it is null; an attribute holding free-text entries is a list of
  strings; \<^verbatim>\<open>quantitative_analysis\<close> and \<^verbatim>\<open>graphics\<close> are sequences of named
  entries. A metric value is a number that the merger only carries, never computes with.
  A partial model card has the same shape, with the attributes the caller does not wish
  to merge left null or empty.
\<close>

record metric =
  metric_name :: string
  metric_value :: real
  metric_confidence_interval :: "(real \<times> real) option"
  metric_slice :: "string option"

record graphic =
  graphic_name :: string
  graphic_data :: string

record model_details =
  details_name :: "string option"
  details_owners :: "string list"
  details_version :: "string option"
  details_license :: "string option"
  details_references :: "string list"
  details_citations :: "string list"

record model_parameters =
  parameters_architecture :: "string option"
  parameters_input_spec :: "string option"
  parameters_output_spec :: "string option"
  parameters_training_data :: "string list"

record considerations =
  use_cases :: "string list"
  limitations :: "string list"
  tradeoffs :: "string list"
  ethical_considerations :: "string list"

record model_card =
  schema_version :: "string option"
  model_details :: model_details
  model_parameters :: model_parameters
  quantitative_analysis :: "metric list"
  considerations :: considerations
  graphics :: "graphic list"

definition empty_card :: model_card where
  "empty_card =
     \<lparr>schema_version = None,
      model_details =
        \<lparr>details_name = None, details_owners = [], details_version = None,
         details_license = None, details_references = [], details_citations = []\<rparr>,
      model_parameters =
        \<lparr>parameters_architecture = None, parameters_input_spec = None,
         parameters_output_spec = None, parameters_training_data = []\<rparr>,
      quantitative_analysis = [],
      considerations =
        \<lparr>use_cases = [], limitations = [], tradeoffs = [], ethical_considerations = []\<rparr>,
      graphics = []\<rparr>"

subsection \<open>Merger\<close>

datatype merge_error = MergeConstraintError

text \<open>
  Modelled from the spec: \<^verbatim>\<open>merge\<close> is missing from the sources. Section 4.3 gives
  its semantics per field category.

  Scalar fields: the update overwrites the base if the update's value is present
  (non-null and non-empty); otherwise the base is retained.
\<close>

fun present :: "string option \<Rightarrow> bool" where
  "present None = False"
| "present (Some s) = (s \<noteq> [])"

definition merge_scalar :: "string option \<Rightarrow> string option \<Rightarrow> string option" where
  "merge_scalar base update = (if present update then update else base)"

text \<open>
  Ordered-sequence fields: update entries are appended; an entry whose key matches an
  existing base entry replaces it in place, keeping the position. The key of a metric is
  (metric name, slice identifier); the key of a graphic is its name.
\<close>

fun upsert :: "('a \<Rightarrow> 'k) \<Rightarrow> 'a list \<Rightarrow> 'a \<Rightarrow> 'a list" where
  "upsert key [] e = [e]"
| "upsert key (x # xs) e = (if key x = key e then e # xs else x # upsert key xs e)"

definition merge_sequence :: "('a \<Rightarrow> 'k) \<Rightarrow> 'a list \<Rightarrow> 'a list \<Rightarrow> 'a list" where
  "merge_sequence key base update = foldl (upsert key) base update"

definition metric_key :: "metric \<Rightarrow> string \<times> string option" where
  "metric_key m = (metric_name m, metric_slice m)"

text \<open>
  Set-like text fields: union of base and update, de-duplicated by exact string
  equality, insertion order preserved, base entries first.
\<close>

definition add_text :: "string list \<Rightarrow> string \<Rightarrow> string list" where
  "add_text entries t = (if List.member entries t then entries else entries @ [t])"

definition merge_text :: "string list \<Rightarrow> string list \<Rightarrow> string list" where
  "merge_text base update = foldl add_text base update"

text \<open>
  The merge fails with \<^verbatim>\<open>MergeConstraintError\<close> where merging introduces a sequence
  length exceeding a schema-declared maximum: the base was within the maximum and the
  merged sequence is not. The maxima are a parameter, keyed by the JSON pointer of the
  field; \<open>None\<close> when the schema declares none.
\<close>

type_synonym limits = "string \<Rightarrow> nat option"

definition no_limits :: limits where
  "no_limits = (\<lambda>pointer. None)"

definition bounded :: "nat option \<Rightarrow> 'a list \<Rightarrow> 'a list \<Rightarrow> merge_error + 'a list" where
  "bounded limit base merged =
     (case limit of
        None \<Rightarrow> Inr merged
      | Some m \<Rightarrow>
          if length base \<le> m \<and> m < length merged then Inl MergeConstraintError
          else Inr merged)"

definition and_then :: "'e + 'a \<Rightarrow> ('a \<Rightarrow> 'e + 'b) \<Rightarrow> 'e + 'b" where
  "and_then r f = (case r of Inl e \<Rightarrow> Inl e | Inr x \<Rightarrow> f x)"

definition merge_text_field ::
  "limits \<Rightarrow> string \<Rightarrow> string list \<Rightarrow> string list \<Rightarrow> merge_error + string list" where
  "merge_text_field maxima pointer base update =
     bounded (maxima pointer) base (merge_text base update)"

definition merge_sequence_field ::
  "limits \<Rightarrow> string \<Rightarrow> ('a \<Rightarrow> 'k) \<Rightarrow> 'a list \<Rightarrow> 'a list \<Rightarrow> merge_error + 'a list" where
  "merge_sequence_field maxima pointer key base update =
     bounded (maxima pointer) base (merge_sequence key base update)"

text \<open>Nested records: the same rules, field by field.\<close>

definition merge_model_details ::
  "limits \<Rightarrow> model_details \<Rightarrow> model_details \<Rightarrow> merge_error + model_details" where
  "merge_model_details maxima base update =
     and_then (merge_text_field maxima ''/model_details/owners''
                 (details_owners base) (details_owners update)) (\<lambda>os.
     and_then (merge_text_field maxima ''/model_details/references''
                 (details_references base) (details_references update)) (\<lambda>rs.
     and_then (merge_text_field maxima ''/model_details/citations''
                 (details_citations base) (details_citations update)) (\<lambda>cs.
     Inr \<lparr>details_name = merge_scalar (details_name base) (details_name update),
          details_owners = os,
          details_version = merge_scalar (details_version base) (details_version update),
          details_license = merge_scalar (details_license base) (details_license update),
          details_references = rs,
          details_citations = cs\<rparr>)))"

definition merge_model_parameters ::
  "limits \<Rightarrow> model_parameters \<Rightarrow> model_parameters \<Rightarrow> merge_error + model_parameters" where
  "merge_model_parameters maxima base update =
     and_then (merge_text_field maxima ''/model_parameters/training_data''
                 (parameters_training_data base) (parameters_training_data update)) (\<lambda>ds.
     Inr \<lparr>parameters_architecture =
            merge_scalar (parameters_architecture base) (parameters_architecture update),
          parameters_input_spec =
            merge_scalar (parameters_input_spec base) (parameters_input_spec update),
          parameters_output_spec =
            merge_scalar (parameters_output_spec base) (parameters_output_spec update),
          parameters_training_data = ds\<rparr>)"

definition merge_considerations ::
  "limits \<Rightarrow> considerations \<Rightarrow> considerations \<Rightarrow> merge_error + considerations" where
  "merge_considerations maxima base update =
     and_then (merge_text_field maxima ''/considerations/use_cases''
                 (use_cases base) (use_cases update)) (\<lambda>us.
     and_then (merge_text_field maxima ''/considerations/limitations''
                 (limitations base) (limitations update)) (\<lambda>ls.
     and_then (merge_text_field maxima ''/considerations/tradeoffs''
                 (tradeoffs base) (tradeoffs update)) (\<lambda>ts.
     and_then (merge_text_field maxima ''/considerations/ethical_considerations''
                 (ethical_considerations base) (ethical_considerations update)) (\<lambda>es.
     Inr \<lparr>use_cases = us, limitations = ls, tradeoffs = ts,
          ethical_considerations = es\<rparr>))))"

definition merge :: "limits \<Rightarrow> model_card \<Rightarrow> model_card \<Rightarrow> merge_error + model_card" where
  "merge maxima base update =
     and_then (merge_model_details maxima (model_details base) (model_details update)) (\<lambda>md.
     and_then (merge_model_parameters maxima
                 (model_parameters base) (model_parameters update)) (\<lambda>mp.
     and_then (merge_sequence_field maxima ''/quantitative_analysis'' metric_key
                 (quantitative_analysis base) (quantitative_analysis update)) (\<lambda>qa.
     and_then (merge_considerations maxima
                 (considerations base) (considerations update)) (\<lambda>cons.
     and_then (merge_sequence_field maxima ''/graphics'' graphic_name
                 (graphics base) (graphics update)) (\<lambda>gs.
     Inr \<lparr>schema_version = merge_scalar (schema_version base) (schema_version update),
          model_details = md,
          model_parameters = mp,
          quantitative_analysis = qa,
          considerations = cons,
          graphics = gs\<rparr>)))))"

text \<open>
  The two cards of the specification's merge scenario: metrics with a name and a value
  only, on cards that hold nothing else.
\<close>

definition plain_metric :: "string \<Rightarrow> real \<Rightarrow> metric" where
  "plain_metric n v =
     \<lparr>metric_name = n, metric_value = v, metric_confidence_interval = None,
      metric_slice = None\<rparr>"

definition scenario_base :: model_card where
  "scenario_base = empty_card\<lparr>quantitative_analysis := [plain_metric ''accuracy'' 0.9]\<rparr>"

definition scenario_update :: model_card where
  "scenario_update =
     empty_card\<lparr>quantitative_analysis :=
       [plain_metric ''accuracy'' 0.95, plain_metric ''f1'' 0.8]\<rparr>"

section \<open>Properties of the build commands\<close>

lemma finalize_options_found_first:
  "\<not> py_not (path_lookup s ''bazel'') \<Longrightarrow>
   finalize_options self s =
     (Inr (),
      self\<lparr>bazel_cmd := Assigned (path_lookup s ''bazel''),
           additional_build_options :=
             Assigned (if system_name s = ''Darwin'' then [''--macos_minimum_os=10.9''] else [])\<rparr>,
      s\<lparr>lookups := lookups s @ [''bazel'']\<rparr>)"
  by (simp add: finalize_options_def find_executable_def platform_system_def)

lemma finalize_options_found_second:
  "py_not (path_lookup s ''bazel'') \<Longrightarrow> \<not> py_not (path_lookup s ''bazelisk'') \<Longrightarrow>
   finalize_options self s =
     (Inr (),
      self\<lparr>bazel_cmd := Assigned (path_lookup s ''bazelisk''),
           additional_build_options :=
             Assigned (if system_name s = ''Darwin'' then [''--macos_minimum_os=10.9''] else [])\<rparr>,
      s\<lparr>lookups := lookups s @ [''bazel'', ''bazelisk'']\<rparr>)"
  by (simp add: finalize_options_def find_executable_def platform_system_def)

lemma finalize_options_not_found:
  "py_not (path_lookup s ''bazel'') \<Longrightarrow> py_not (path_lookup s ''bazelisk'') \<Longrightarrow>
   finalize_options self s =
     (Inl (RuntimeError not_found_message),
      self\<lparr>bazel_cmd := Assigned (path_lookup s ''bazelisk'')\<rparr>,
      s\<lparr>lookups := lookups s @ [''bazel'', ''bazelisk'']\<rparr>)"
  by (simp add: finalize_options_def find_executable_def platform_system_def)

text \<open>
  C8. \<^verbatim>\<open>finalize_options\<close> raises \<^verbatim>\<open>RuntimeError\<close> if and only if neither a "bazel"
  nor a "bazelisk" executable is found, and returns normally otherwise. When "bazel" is
  found it is the command selected, whether or not "bazelisk" exists too, and "bazel" is
  then the only name looked up: "bazelisk" is looked up only after the lookup of "bazel"
  has returned nothing. The hypotheses say what \<^verbatim>\<open>find_executable\<close> returns: a path it
  has found is never the empty string.
\<close>

theorem finalize_options_raises_iff_none_found:
  assumes "path_lookup s ''bazel'' \<noteq> Some []" and "path_lookup s ''bazelisk'' \<noteq> Some []"
  shows "(fst (finalize_options self s) = Inl (RuntimeError not_found_message) \<longleftrightarrow>
            path_lookup s ''bazel'' = None \<and> path_lookup s ''bazelisk'' = None)
       \<and> (fst (finalize_options self s) = Inr () \<longleftrightarrow>
            \<not> (path_lookup s ''bazel'' = None \<and> path_lookup s ''bazelisk'' = None))
       \<and> (\<forall>p. path_lookup s ''bazel'' = Some p \<longrightarrow>
            bazel_cmd (fst (snd (finalize_options self s))) = Assigned (Some p) \<and>
            lookups (snd (snd (finalize_options self s))) = lookups s @ [''bazel''])
       \<and> (path_lookup s ''bazel'' = None \<longrightarrow>
            bazel_cmd (fst (snd (finalize_options self s))) = Assigned (path_lookup s ''bazelisk'') \<and>
            lookups (snd (snd (finalize_options self s))) = lookups s @ [''bazel'', ''bazelisk''])"
proof (cases "path_lookup s ''bazel''")
  case None
  note first = None
  show ?thesis
  proof (cases "path_lookup s ''bazelisk''")
    case None
    with first show ?thesis
      by (simp add: finalize_options_not_found)
  next
    case (Some q)
    with assms have "q \<noteq> []" by auto
    with first Some show ?thesis
      by (simp add: finalize_options_found_second)
  qed
next
  case (Some p)
  with assms have "p \<noteq> []" by auto
  with Some show ?thesis
    by (simp add: finalize_options_found_first)
qed

theorem finalize_options_raises_iff_none_found_witness:
  "fst (finalize_options \<lparr>bazel_cmd = Unset, additional_build_options = Unset\<rparr>
         \<lparr>path_lookup = (\<lambda>n. if n = ''bazel'' then Some ''/usr/bin/bazel''
                              else if n = ''bazelisk'' then Some ''/usr/local/bin/bazelisk''
                              else None),
          system_name = ''Linux'', lookups = []\<rparr>) = Inr ()
   \<and> bazel_cmd (fst (snd (finalize_options \<lparr>bazel_cmd = Unset, additional_build_options = Unset\<rparr>
         \<lparr>path_lookup = (\<lambda>n. if n = ''bazel'' then Some ''/usr/bin/bazel''
                              else if n = ''bazelisk'' then Some ''/usr/local/bin/bazelisk''
                              else None),
          system_name = ''Linux'', lookups = []\<rparr>))) = Assigned (Some ''/usr/bin/bazel'')
   \<and> lookups (snd (snd (finalize_options \<lparr>bazel_cmd = Unset, additional_build_options = Unset\<rparr>
         \<lparr>path_lookup = (\<lambda>n. if n = ''bazel'' then Some ''/usr/bin/bazel''
                              else if n = ''bazelisk'' then Some ''/usr/local/bin/bazelisk''
                              else None),
          system_name = ''Linux'', lookups = []\<rparr>))) = [''bazel'']"
  using finalize_options_raises_iff_none_found
    [of "\<lparr>path_lookup = (\<lambda>n. if n = ''bazel'' then Some ''/usr/bin/bazel''
                              else if n = ''bazelisk'' then Some ''/usr/local/bin/bazelisk''
                              else None),
          system_name = ''Linux'', lookups = []\<rparr>"
        "\<lparr>bazel_cmd = Unset, additional_build_options = Unset\<rparr>"]
  by simp

text \<open>
  C9. After \<^verbatim>\<open>finalize_options\<close> has returned normally, the additional build options
  are \<^verbatim>\<open>['--macos_minimum_os=10.9']\<close> exactly when \<^verbatim>\<open>platform.system()\<close> is
  \<^verbatim>\<open>'Darwin'\<close>, and the empty list on every other platform.
\<close>

theorem finalize_options_additional_build_options:
  assumes "fst (finalize_options self s) = Inr ()"
  shows "(additional_build_options (fst (snd (finalize_options self s)))
            = Assigned [''--macos_minimum_os=10.9'']
          \<longleftrightarrow> platform_system s = ''Darwin'')
       \<and> (platform_system s \<noteq> ''Darwin'' \<longrightarrow>
            additional_build_options (fst (snd (finalize_options self s))) = Assigned [])"
proof (cases "py_not (path_lookup s ''bazel'')")
  case False
  then show ?thesis
    by (simp add: finalize_options_found_first platform_system_def)
next
  case True
  note first = True
  show ?thesis
  proof (cases "py_not (path_lookup s ''bazelisk'')")
    case True
    with first assms show ?thesis
      by (simp add: finalize_options_not_found)
  next
    case False
    with first show ?thesis
      by (simp add: finalize_options_found_second platform_system_def)
  qed
qed

theorem finalize_options_additional_build_options_witness:
  "fst (finalize_options \<lparr>bazel_cmd = Unset, additional_build_options = Unset\<rparr>
         \<lparr>path_lookup = (\<lambda>n. if n = ''bazelisk'' then Some ''/opt/bin/bazelisk'' else None),
          system_name = ''Darwin'', lookups = []\<rparr>) = Inr ()
   \<and> additional_build_options
        (fst (snd (finalize_options \<lparr>bazel_cmd = Unset, additional_build_options = Unset\<rparr>
         \<lparr>path_lookup = (\<lambda>n. if n = ''bazelisk'' then Some ''/opt/bin/bazelisk'' else None),
          system_name = ''Darwin'', lookups = []\<rparr>))) = Assigned [''--macos_minimum_os=10.9'']"
proof -
  let ?s = "\<lparr>path_lookup = (\<lambda>n. if n = ''bazelisk'' then Some ''/opt/bin/bazelisk'' else None),
          system_name = ''Darwin'', lookups = []\<rparr>"
  let ?self = "\<lparr>bazel_cmd = Unset, additional_build_options = Unset\<rparr>"
  have ok: "fst (finalize_options ?self ?s) = Inr ()"
    by (simp add: finalize_options_def find_executable_def platform_system_def)
  from finalize_options_additional_build_options [OF ok] ok show ?thesis
    by (simp add: platform_system_def)
qed

text \<open>
  C10. \<^verbatim>\<open>_BuildCommand.sub_commands\<close> has \<^verbatim>\<open>('bazel_build', _build_cc_extensions)\<close> as
  its first element, followed by the sub-commands of the distutils build command in
  their original order. The predicate of the first element is always true, so the
  sequence of commands a build runs starts with \<^verbatim>\<open>bazel_build\<close>, followed by the
  standard sub-commands it would run otherwise.
\<close>

theorem sub_commands_bazel_build_first:
  "sub_commands std = (''bazel_build'', Some build_cc_extensions) # std
   \<and> hd (sub_commands std) = (''bazel_build'', Some build_cc_extensions)
   \<and> tl (sub_commands std) = std
   \<and> get_sub_commands self (sub_commands std) = ''bazel_build'' # get_sub_commands self std"
  by (simp add: sub_commands_def get_sub_commands_def build_cc_extensions_def)

section \<open>Properties of the schema registry\<close>

lemma max_version_Max:
  "vs \<noteq> [] \<Longrightarrow> max_version vs = Some (Max (set vs))"
proof (induction vs)
  case Nil
  then show ?case by simp
next
  case (Cons v vs)
  show ?case
  proof (cases "vs = []")
    case True
    then show ?thesis by simp
  next
    case False
    with Cons.IH have "max_version vs = Some (Max (set vs))" by simp
    with False show ?thesis by (simp add: Max_insert)
  qed
qed

text \<open>
  C3. For every version that is not among the registry's known versions,
  \<^verbatim>\<open>resolve\<close> fails with \<^verbatim>\<open>SchemaNotFoundError\<close>. On a registry that knows at least
  one version, \<^verbatim>\<open>resolve("latest")\<close> returns the schema registered under the maximum
  of the known versions in semantic-version order: no known version is greater.
\<close>

theorem resolve_unknown_and_latest:
  "(v \<notin> set (known_versions reg) \<longrightarrow> resolve reg (Exact v) = Inl SchemaNotFoundError)
   \<and> (reg \<noteq> [] \<longrightarrow>
        (\<exists>sch. resolve reg Latest = Inr sch
           \<and> map_of reg (Max (set (known_versions reg))) = Some sch
           \<and> (Max (set (known_versions reg)), sch) \<in> set reg
           \<and> (\<forall>w \<in> set (known_versions reg). w \<le> Max (set (known_versions reg)))))"
proof (intro conjI impI)
  assume "v \<notin> set (known_versions reg)"
  then have "map_of reg v = None"
    by (simp add: known_versions_def map_of_eq_None_iff)
  then show "resolve reg (Exact v) = Inl SchemaNotFoundError"
    by (simp add: lookup_version_def)
next
  assume ne: "reg \<noteq> []"
  let ?m = "Max (set (known_versions reg))"
  from ne have kne: "known_versions reg \<noteq> []" by (simp add: known_versions_def)
  then have mv: "max_version (known_versions reg) = Some ?m" by (rule max_version_Max)
  from kne have "?m \<in> set (known_versions reg)" by (intro Max_in) auto
  then have "?m \<in> fst ` set reg" by (simp add: known_versions_def)
  then obtain sch where sch: "map_of reg ?m = Some sch"
    by (metis map_of_eq_None_iff not_Some_eq)
  then have mem: "(?m, sch) \<in> set reg" by (rule map_of_SomeD)
  have "resolve reg Latest = Inr sch"
    using mv sch by (simp add: lookup_version_def)
  moreover have "\<forall>w \<in> set (known_versions reg). w \<le> ?m" by simp
  ultimately show "\<exists>sch. resolve reg Latest = Inr sch
           \<and> map_of reg ?m = Some sch
           \<and> (?m, sch) \<in> set reg
           \<and> (\<forall>w \<in> set (known_versions reg). w \<le> ?m)"
    using sch mem by blast
qed

theorem resolve_unknown_and_latest_witness:
  "(9, 9, 9) \<notin> set (known_versions [((0, 3, 2), ''c''), ((0, 1, 0), ''a''), ((0, 2, 7), ''b'')])
   \<and> resolve [((0, 3, 2), ''c''), ((0, 1, 0), ''a''), ((0, 2, 7), ''b'')] (Exact (9, 9, 9))
       = Inl SchemaNotFoundError
   \<and> resolve [((0, 3, 2), ''c''), ((0, 1, 0), ''a''), ((0, 2, 7), ''b'')] Latest = Inr ''c''"
  using resolve_unknown_and_latest
    [of "(9, 9, 9)" "[((0, 3, 2), ''c''), ((0, 1, 0), ''a''), ((0, 2, 7), ''b'')]"]
  by (simp add: known_versions_def lookup_version_def)

section \<open>Properties of the merger\<close>

subsection \<open>Replace in place, or append\<close>

lemma upsert_replaces:
  "key e \<in> key ` set xs \<Longrightarrow>
   length (upsert key xs e) = length xs \<and> map key (upsert key xs e) = map key xs
   \<and> e \<in> set (upsert key xs e)"
  by (induction xs) auto

lemma upsert_appends: "key e \<notin> key ` set xs \<Longrightarrow> upsert key xs e = xs @ [e]"
  by (induction xs) auto

lemma upsert_keys:
  "set (map key (upsert key xs e)) = insert (key e) (set (map key xs))"
  by (induction xs) auto

lemma upsert_distinct:
  "distinct (map key xs) \<Longrightarrow> distinct (map key (upsert key xs e))"
proof (induction xs)
  case Nil
  then show ?case by simp
next
  case (Cons x xs)
  then show ?case
    using upsert_keys [of key xs e] by auto
qed

subsection \<open>The empty update\<close>

lemma bounded_same: "bounded limit xs xs = Inr xs"
  by (auto simp: bounded_def split: option.splits)

lemma merge_text_field_empty: "merge_text_field maxima pointer base [] = Inr base"
  by (simp add: merge_text_field_def merge_text_def bounded_same)

lemma merge_sequence_field_empty: "merge_sequence_field maxima pointer key base [] = Inr base"
  by (simp add: merge_sequence_field_def merge_sequence_def bounded_same)

lemma merge_scalar_absent: "merge_scalar base None = base"
  by (simp add: merge_scalar_def)

lemma merge_model_details_empty:
  "merge_model_details maxima d (model_details empty_card) = Inr d"
  by (simp add: merge_model_details_def empty_card_def and_then_def
      merge_text_field_empty merge_scalar_absent)

lemma merge_model_parameters_empty:
  "merge_model_parameters maxima p (model_parameters empty_card) = Inr p"
  by (simp add: merge_model_parameters_def empty_card_def and_then_def
      merge_text_field_empty merge_scalar_absent)

lemma merge_considerations_empty:
  "merge_considerations maxima c (considerations empty_card) = Inr c"
  by (simp add: merge_considerations_def empty_card_def and_then_def
      merge_text_field_empty)

text \<open>
  C1. For every model card \<open>D\<close>, whatever maxima the schema declares, merging \<open>D\<close> with
  the empty partial update succeeds and returns \<open>D\<close> itself.
\<close>

theorem merge_empty_update: "merge maxima D empty_card = Inr D"
proof -
  have "quantitative_analysis empty_card = []" "graphics empty_card = []"
    "schema_version empty_card = None"
    by (simp_all add: empty_card_def)
  then show ?thesis
    by (simp add: merge_def and_then_def merge_model_details_empty
        merge_model_parameters_empty merge_considerations_empty
        merge_sequence_field_empty merge_scalar_absent)
qed

subsection \<open>The merged sequence in closed form\<close>

lemma upsert_present:
  "key e \<in> key ` set xs \<Longrightarrow> distinct (map key xs) \<Longrightarrow>
   upsert key xs e = map (\<lambda>x. if key x = key e then e else x) xs"
proof (induction xs)
  case Nil
  then show ?case by simp
next
  case (Cons x xs)
  show ?case
  proof (cases "key x = key e")
    case True
    with Cons.prems have "\<forall>y \<in> set xs. key y \<noteq> key e" by (auto simp: image_iff)
    then have "map (\<lambda>y. if key y = key e then e else y) xs = xs"
      by (simp add: map_idI)
    with True show ?thesis by simp
  next
    case False
    with Cons show ?thesis by auto
  qed
qed

lemma merge_sequence_closed_form:
  "distinct (map key base) \<Longrightarrow> distinct (map key update) \<Longrightarrow>
   merge_sequence key base update =
     map (\<lambda>b. case find (\<lambda>u. key u = key b) update of None \<Rightarrow> b | Some u \<Rightarrow> u) base
     @ filter (\<lambda>u. key u \<notin> key ` set base) update"
proof (induction update arbitrary: base)
  case Nil
  then show ?case by (simp add: merge_sequence_def)
next
  case (Cons e es)
  from Cons.prems have fresh: "\<forall>u \<in> set es. key u \<noteq> key e" and des: "distinct (map key es)"
    by (auto simp: image_iff)
  have dist': "distinct (map key (upsert key base e))"
    using Cons.prems(1) by (rule upsert_distinct)
  have step: "merge_sequence key base (e # es) = merge_sequence key (upsert key base e) es"
    by (simp add: merge_sequence_def)
  have none: "find (\<lambda>u. key u = key e) es = None"
    using fresh by (simp add: find_None_iff)
  show ?case
  proof (cases "key e \<in> key ` set base")
    case True
    have up: "upsert key base e = map (\<lambda>x. if key x = key e then e else x) base"
      using True Cons.prems(1) by (rule upsert_present)
    have keys: "key ` set (upsert key base e) = key ` set base"
      using upsert_keys [of key base e] True by auto
    have "merge_sequence key (upsert key base e) es =
        map (\<lambda>b. case find (\<lambda>u. key u = key b) es of None \<Rightarrow> b | Some u \<Rightarrow> u)
          (upsert key base e)
        @ filter (\<lambda>u. key u \<notin> key ` set base) es"
      using Cons.IH [OF dist' des] keys by simp
    also have "map (\<lambda>b. case find (\<lambda>u. key u = key b) es of None \<Rightarrow> b | Some u \<Rightarrow> u)
          (upsert key base e)
        = map (\<lambda>b. case find (\<lambda>u. key u = key b) (e # es) of None \<Rightarrow> b | Some u \<Rightarrow> u) base"
      unfolding up using none by (auto simp: comp_def)
    finally show ?thesis using True step by simp
  next
    case False
    then have up: "upsert key base e = base @ [e]" by (rule upsert_appends)
    have same: "filter (\<lambda>u. key u \<notin> key ` set (base @ [e])) es
              = filter (\<lambda>u. key u \<notin> key ` set base) es"
      using fresh by (intro filter_cong) auto
    have "map (\<lambda>b. case find (\<lambda>u. key u = key b) es of None \<Rightarrow> b | Some u \<Rightarrow> u) base
        = map (\<lambda>b. case find (\<lambda>u. key u = key b) (e # es) of None \<Rightarrow> b | Some u \<Rightarrow> u) base"
      using False by (intro map_cong) auto
    then show ?thesis
      using Cons.IH [OF dist' des] False none same step unfolding up by simp
  qed
qed

lemma merge_sequence_distinct:
  "distinct (map key base) \<Longrightarrow> distinct (map key (merge_sequence key base update))"
  unfolding merge_sequence_def
  by (induction update arbitrary: base) (simp_all add: upsert_distinct)

lemma merge_yields_merge_sequence:
  "merge maxima base update = Inr R \<Longrightarrow>
   quantitative_analysis R =
     merge_sequence metric_key (quantitative_analysis base) (quantitative_analysis update)"
  by (auto simp: merge_def and_then_def merge_sequence_field_def bounded_def
      split: sum.splits option.splits if_splits)

lemma bounded_no_limit: "bounded None base merged = Inr merged"
  by (simp add: bounded_def)

lemma merge_no_limits_succeeds: "\<exists>R. merge no_limits base update = Inr R"
  by (simp add: merge_def merge_model_details_def merge_model_parameters_def
      merge_considerations_def merge_text_field_def merge_sequence_field_def
      no_limits_def bounded_no_limit and_then_def)

subsection \<open>The merge scenario\<close>

text \<open>
  C2. Merging the base whose \<^verbatim>\<open>quantitative_analysis\<close> is the metric "accuracy" with
  value 0.9 with the update whose \<^verbatim>\<open>quantitative_analysis\<close> is "accuracy" with value
  0.95 followed by "f1" with value 0.8 yields exactly "accuracy" with 0.95 followed by
  "f1" with 0.8 (the schema of the scenario declares no maximum length). The rule behind
  it, for any two cards that each hold at most one metric per key (metric name, slice
  identifier): without declared maxima the merge succeeds, and whenever it succeeds the
  merged sequence is the base sequence, each entry in its original position and replaced
  by the update entry of the same key where there is one, followed by the update entries
  whose key matches no base entry, in the update's order; no key occurs twice in it.
\<close>

theorem merge_quantitative_analysis_replace_or_append:
  assumes "distinct (map (\<lambda>m. (metric_name m, metric_slice m)) (quantitative_analysis base))"
      and "distinct (map (\<lambda>m. (metric_name m, metric_slice m)) (quantitative_analysis update))"
  shows "(\<exists>R. merge no_limits base update = Inr R)
       \<and> (\<forall>maxima R. merge maxima base update = Inr R \<longrightarrow>
            quantitative_analysis R =
              map (\<lambda>b. case find (\<lambda>u. (metric_name u, metric_slice u)
                                        = (metric_name b, metric_slice b))
                                (quantitative_analysis update) of
                         None \<Rightarrow> b
                       | Some u \<Rightarrow> u)
                  (quantitative_analysis base)
              @ filter (\<lambda>u. (metric_name u, metric_slice u)
                              \<notin> (\<lambda>b. (metric_name b, metric_slice b))
                                  ` set (quantitative_analysis base))
                  (quantitative_analysis update)
            \<and> length (quantitative_analysis base) \<le> length (quantitative_analysis R)
            \<and> distinct (map (\<lambda>m. (metric_name m, metric_slice m)) (quantitative_analysis R)))
       \<and> merge no_limits scenario_base scenario_update =
           Inr (empty_card\<lparr>quantitative_analysis :=
                  [plain_metric ''accuracy'' 0.95, plain_metric ''f1'' 0.8]\<rparr>)"
proof (intro conjI allI impI)
  show "\<exists>R. merge no_limits base update = Inr R"
    by (rule merge_no_limits_succeeds)
next
  fix maxima R
  assume ok: "merge maxima base update = Inr R"
  have key: "metric_key = (\<lambda>m. (metric_name m, metric_slice m))"
    by (rule ext) (simp add: metric_key_def)
  have qa: "quantitative_analysis R =
      merge_sequence (\<lambda>m. (metric_name m, metric_slice m))
        (quantitative_analysis base) (quantitative_analysis update)"
    using merge_yields_merge_sequence [OF ok] unfolding key .
  show closed: "quantitative_analysis R =
      map (\<lambda>b. case find (\<lambda>u. (metric_name u, metric_slice u)
                                = (metric_name b, metric_slice b))
                        (quantitative_analysis update) of
                 None \<Rightarrow> b
               | Some u \<Rightarrow> u)
          (quantitative_analysis base)
      @ filter (\<lambda>u. (metric_name u, metric_slice u)
                      \<notin> (\<lambda>b. (metric_name b, metric_slice b))
                          ` set (quantitative_analysis base))
          (quantitative_analysis update)"
    unfolding qa using assms by (rule merge_sequence_closed_form)
  show "length (quantitative_analysis base) \<le> length (quantitative_analysis R)"
    by (subst closed) simp
  show "distinct (map (\<lambda>m. (metric_name m, metric_slice m)) (quantitative_analysis R))"
    unfolding qa using assms(1) by (rule merge_sequence_distinct)
next
  show "merge no_limits scenario_base scenario_update =
           Inr (empty_card\<lparr>quantitative_analysis :=
                  [plain_metric ''accuracy'' 0.95, plain_metric ''f1'' 0.8]\<rparr>)"
    by (simp add: merge_def merge_model_details_def merge_model_parameters_def
      merge_considerations_def merge_text_field_def merge_sequence_field_def
      merge_text_def merge_sequence_def merge_scalar_def bounded_def no_limits_def
      and_then_def scenario_base_def scenario_update_def empty_card_def
      plain_metric_def metric_key_def)
qed

theorem merge_quantitative_analysis_replace_or_append_witness:
  "distinct (map (\<lambda>m. (metric_name m, metric_slice m))
      [plain_metric ''accuracy'' 0.9, plain_metric ''auc'' 0.5,
       (plain_metric ''accuracy'' 0.85)\<lparr>metric_slice := Some ''women''\<rparr>])
   \<and> distinct (map (\<lambda>m. (metric_name m, metric_slice m))
      [plain_metric ''auc'' 0.7,
       (plain_metric ''accuracy'' 0.8)\<lparr>metric_slice := Some ''men''\<rparr>,
       plain_metric ''accuracy'' 0.95])
   \<and> (\<exists>R. merge no_limits
          (empty_card\<lparr>quantitative_analysis :=
             [plain_metric ''accuracy'' 0.9, plain_metric ''auc'' 0.5,
              (plain_metric ''accuracy'' 0.85)\<lparr>metric_slice := Some ''women''\<rparr>]\<rparr>)
          (empty_card\<lparr>quantitative_analysis :=
             [plain_metric ''auc'' 0.7,
              (plain_metric ''accuracy'' 0.8)\<lparr>metric_slice := Some ''men''\<rparr>,
              plain_metric ''accuracy'' 0.95]\<rparr>) = Inr R
        \<and> quantitative_analysis R =
            [plain_metric ''accuracy'' 0.95, plain_metric ''auc'' 0.7,
             (plain_metric ''accuracy'' 0.85)\<lparr>metric_slice := Some ''women''\<rparr>,
             (plain_metric ''accuracy'' 0.8)\<lparr>metric_slice := Some ''men''\<rparr>])"
proof -
  let ?B = "empty_card\<lparr>quantitative_analysis :=
             [plain_metric ''accuracy'' 0.9, plain_metric ''auc'' 0.5,
              (plain_metric ''accuracy'' 0.85)\<lparr>metric_slice := Some ''women''\<rparr>]\<rparr>"
  let ?U = "empty_card\<lparr>quantitative_analysis :=
             [plain_metric ''auc'' 0.7,
              (plain_metric ''accuracy'' 0.8)\<lparr>metric_slice := Some ''men''\<rparr>,
              plain_metric ''accuracy'' 0.95]\<rparr>"
  have dB: "distinct (map (\<lambda>m. (metric_name m, metric_slice m)) (quantitative_analysis ?B))"
    by (simp add: plain_metric_def)
  have dU: "distinct (map (\<lambda>m. (metric_name m, metric_slice m)) (quantitative_analysis ?U))"
    by (simp add: plain_metric_def)
  note rule = merge_quantitative_analysis_replace_or_append [OF dB dU]
  from rule obtain R where R: "merge no_limits ?B ?U = Inr R" by blast
  with rule have "quantitative_analysis R =
      map (\<lambda>b. case find (\<lambda>u. (metric_name u, metric_slice u)
                                = (metric_name b, metric_slice b))
                        (quantitative_analysis ?U) of
                 None \<Rightarrow> b
               | Some u \<Rightarrow> u)
          (quantitative_analysis ?B)
      @ filter (\<lambda>u. (metric_name u, metric_slice u)
                      \<notin> (\<lambda>b. (metric_name b, metric_slice b))
                          ` set (quantitative_analysis ?B))
          (quantitative_analysis ?U)"
    by blast
  then have "quantitative_analysis R =
            [plain_metric ''accuracy'' 0.95, plain_metric ''auc'' 0.7,
             (plain_metric ''accuracy'' 0.85)\<lparr>metric_slice := Some ''women''\<rparr>,
             (plain_metric ''accuracy'' 0.8)\<lparr>metric_slice := Some ''men''\<rparr>]"
    by (simp add: plain_metric_def)
  with R dB dU show ?thesis by simp
qed

end
